theory Spec2Isabelle
  imports Complex_Main "HOL-Library.Product_Lexorder"
begin

section \<open>Data model\<close>

text \<open>
  The timeline editor of GenVideo-Studio (\<^verbatim>\<open>src/components/TimelineEditor.tsx\<close>) and its
  canvas exporter (\<^verbatim>\<open>src/services/timelineExport.ts\<close>). A JavaScript \<^verbatim>\<open>number\<close> is
  modelled as a \<^typ>\<open>real\<close>: the arithmetic of the source is read exactly, without
  floating-point rounding.
\<close>

text \<open>
  \<^verbatim>\<open>VideoClip\<close> of \<^verbatim>\<open>src/types.ts\<close>. Only the fields the timeline reads are kept:
  \<^verbatim>\<open>id\<close>, \<^verbatim>\<open>url\<close> and the optional \<^verbatim>\<open>duration\<close> (\<open>None\<close> is \<^verbatim>\<open>undefined\<close>).
\<close>

record VideoClip =
  videoId :: string
  url :: string
  videoDuration :: "real option"

datatype track = ARoll | BRoll

text \<open>\<^verbatim>\<open>interface TimelineClip\<close>, declared in both source files.\<close>

record TimelineClip =
  clipId :: string
  videoClip :: VideoClip
  startTime :: real
  duration :: real
  track :: track

text \<open>The expression \<^verbatim>\<open>c.startTime + c.duration\<close> that every duration computation maps over the clips.\<close>

definition clipEnd :: "TimelineClip \<Rightarrow> real" where
  "clipEnd c = startTime c + duration c"

text \<open>\<^verbatim>\<open>Math.max(...xs, c)\<close>: the largest of the spread elements and the trailing constant.\<close>

definition mathMax :: "real list \<Rightarrow> real \<Rightarrow> real" where
  "mathMax xs c = foldr max xs c"

text \<open>
  \<^verbatim>\<open>const totalDuration = Math.max(...timelineClips.map((c) => c.startTime + c.duration), 45)\<close>
  (TimelineEditor.tsx, lines 590-593).
\<close>

definition totalDuration :: "TimelineClip list \<Rightarrow> real" where
  "totalDuration timelineClips = mathMax (map clipEnd timelineClips) 45"

text \<open>Concrete clips used in the examples below.\<close>

definition mkVideo :: "string \<Rightarrow> VideoClip" where
  "mkVideo u = \<lparr>videoId = u, url = u, videoDuration = None\<rparr>"

definition mkClip :: "string \<Rightarrow> string \<Rightarrow> track \<Rightarrow> real \<Rightarrow> real \<Rightarrow> TimelineClip" where
  "mkClip i u tr s d =
     \<lparr>clipId = i, videoClip = mkVideo u, startTime = s, duration = d, track = tr\<rparr>"

section \<open>Editor state and preview\<close>

text \<open>The \<^verbatim>\<open>useState\<close> cells of the \<^verbatim>\<open>TimelineEditor\<close> component that the handlers below read or write.\<close>

record editor =
  timelineClips :: "TimelineClip list"
  currentTime :: real
  isPlaying :: bool
  zoom :: real
  selectedClip :: "string option"
  isDragging :: bool
  draggedClip :: "VideoClip option"
  isDraggingPlayhead :: bool
  isDraggingTimelineClip :: bool
  draggingClipId :: "string option"
  dragOffset :: real

definition initialEditor :: editor where
  "initialEditor =
     \<lparr>timelineClips = [], currentTime = 0, isPlaying = False, zoom = 1, selectedClip = None,
      isDragging = False, draggedClip = None, isDraggingPlayhead = False,
      isDraggingTimelineClip = False, draggingClipId = None, dragOffset = 0\<rparr>"

text \<open>\<^verbatim>\<open>const PIXEL_PER_SECOND = 50 * zoom\<close> and \<^verbatim>\<open>const TRACK_LABEL_WIDTH = 80\<close>.\<close>

definition PIXEL_PER_SECOND :: "real \<Rightarrow> real" where
  "PIXEL_PER_SECOND z = 50 * z"

definition TRACK_LABEL_WIDTH :: real where
  "TRACK_LABEL_WIDTH = 80"

text \<open>\<^verbatim>\<open>d || dflt\<close> on an optional number: \<^verbatim>\<open>undefined\<close> and \<open>0\<close> are falsy.\<close>

definition numberOr :: "real option \<Rightarrow> real \<Rightarrow> real" where
  "numberOr d dflt = (case d of None \<Rightarrow> dflt | Some v \<Rightarrow> if v = 0 then dflt else v)"

text \<open>\<^verbatim>\<open>Math.round\<close>: the nearest integer, a tie going towards \<open>+\<infinity>\<close>.\<close>

definition mathRound :: "real \<Rightarrow> real" where
  "mathRound x = of_int \<lfloor>x + 1 / 2\<rfloor>"

text \<open>
  What a handler measures on \<^verbatim>\<open>timelineRef.current\<close>: \<^verbatim>\<open>getBoundingClientRect().left\<close> and
  \<^verbatim>\<open>parentElement?.scrollLeft || 0\<close>. A handler receives \<open>None\<close> when the ref is null.
\<close>

record timelineRect =
  rectLeft :: real
  scrollLeft :: real

text \<open>The effect that seeds the timeline with the a-roll (lines 103-114); \<open>newId\<close> is \<^verbatim>\<open>crypto.randomUUID()\<close>.\<close>

definition seedARoll :: "VideoClip option \<Rightarrow> string \<Rightarrow> editor \<Rightarrow> editor" where
  "seedARoll aRoll newId s =
     (case aRoll of
        None \<Rightarrow> s
      | Some v \<Rightarrow>
          if length (timelineClips s) = 0
          then s\<lparr>timelineClips :=
                 [\<lparr>clipId = newId, videoClip = v, startTime = 0,
                   duration = numberOr (videoDuration v) 45, track = ARoll\<rparr>]\<rparr>
          else s)"



text \<open>The filter predicate of the preview effect and of the export loop.\<close>

definition activeAt :: "real \<Rightarrow> TimelineClip \<Rightarrow> bool" where
  "activeAt t clip \<longleftrightarrow> t \<ge> startTime clip \<and> t < startTime clip + duration clip"

text \<open>
  \<^verbatim>\<open>activeClips.find((c) => c.track === "b-roll") || activeClips[0]\<close> (lines 139-146);
  \<open>None\<close> is \<^verbatim>\<open>undefined\<close>.
\<close>

definition previewActiveClip :: "TimelineClip list \<Rightarrow> real \<Rightarrow> TimelineClip option" where
  "previewActiveClip cs t =
     (let activeClips = filter (activeAt t) cs
      in case find (\<lambda>c. track c = BRoll) activeClips of
           Some c \<Rightarrow> Some c
         | None \<Rightarrow> (case activeClips of [] \<Rightarrow> None | c # _ \<Rightarrow> Some c))"

text \<open>
  The calls the preview effect makes on the one \<^verbatim>\<open>video\<close> element, in order. \<open>CallPause\<close>
  is the element's \<^verbatim>\<open>pause()\<close>.
\<close>

datatype videoCall = AssignSrc string | AssignCurrentTime real | CallPlay | CallPause

text \<open>
  The preview effect (lines 136-159). \<open>videoSrc\<close> is \<^verbatim>\<open>videoRef.current.src\<close>, or \<open>None\<close>
  when the ref is null.
\<close>

definition syncPreview :: "string option \<Rightarrow> editor \<Rightarrow> videoCall list" where
  "syncPreview videoSrc s =
     (case videoSrc of
        None \<Rightarrow> []
      | Some src \<Rightarrow>
          (case previewActiveClip (timelineClips s) (currentTime s) of
             None \<Rightarrow> []
           | Some activeClip \<Rightarrow>
               (let clipTime = currentTime s - startTime activeClip
                in (if src \<noteq> url (videoClip activeClip)
                    then [AssignSrc (url (videoClip activeClip))] else [])
                   @ [AssignCurrentTime clipTime]
                   @ (if isPlaying s then [CallPlay] else []))))"

section \<open>Drag, drop and transport handlers\<close>

text \<open>\<^verbatim>\<open>handleDrop\<close> (lines 250-277); \<open>newId\<close> is \<^verbatim>\<open>crypto.randomUUID()\<close>.\<close>

definition dropStartTime :: "real \<Rightarrow> timelineRect \<Rightarrow> real \<Rightarrow> real" where
  "dropStartTime clientX rect z =
     (let x = clientX - rectLeft rect + scrollLeft rect - TRACK_LABEL_WIDTH
      in max 0 (x / PIXEL_PER_SECOND z))"

definition handleDrop ::
  "real \<Rightarrow> timelineRect option \<Rightarrow> track \<Rightarrow> string \<Rightarrow> editor \<Rightarrow> editor" where
  "handleDrop clientX timelineRef tr newId s =
     (case (draggedClip s, timelineRef) of
        (Some dragged, Some rect) \<Rightarrow>
          (let startTime = dropStartTime clientX rect (zoom s);
               newClip = \<lparr>clipId = newId, videoClip = dragged,
                          startTime = mathRound (startTime * 10) / 10,
                          duration = numberOr (videoDuration dragged) 3,
                          track = tr\<rparr>
           in s\<lparr>timelineClips := timelineClips s @ [newClip],
                draggedClip := None, isDragging := False\<rparr>)
      | _ \<Rightarrow> s\<lparr>isDragging := False, draggedClip := None\<rparr>)"

text \<open>\<^verbatim>\<open>handleDragStart\<close> (lines 227-240), without the drag image.\<close>

definition handleDragStart :: "VideoClip \<Rightarrow> editor \<Rightarrow> editor" where
  "handleDragStart clip s = s\<lparr>draggedClip := Some clip, isDragging := True\<rparr>"

text \<open>\<^verbatim>\<open>handleClipClick\<close> (lines 279-285).\<close>

definition handleClipClick :: "string \<Rightarrow> editor \<Rightarrow> editor" where
  "handleClipClick cid s =
     (case find (\<lambda>c. clipId c = cid) (timelineClips s) of
        Some clip \<Rightarrow> s\<lparr>selectedClip := Some cid, currentTime := startTime clip\<rparr>
      | None \<Rightarrow> s\<lparr>selectedClip := Some cid\<rparr>)"

text \<open>\<^verbatim>\<open>handleClipMouseDown\<close> (lines 287-313).\<close>

definition handleClipMouseDown ::
  "real \<Rightarrow> timelineRect option \<Rightarrow> string \<Rightarrow> real \<Rightarrow> editor \<Rightarrow> editor" where
  "handleClipMouseDown clientX timelineRef cid clipStartTime s =
     (case timelineRef of
        None \<Rightarrow> s
      | Some rect \<Rightarrow>
          (let clickX = clientX - rectLeft rect + scrollLeft rect - TRACK_LABEL_WIDTH;
               clipPixelPosition = clipStartTime * PIXEL_PER_SECOND (zoom s)
           in s\<lparr>dragOffset := clickX - clipPixelPosition, isDraggingTimelineClip := True,
                draggingClipId := Some cid, selectedClip := Some cid, isPlaying := False\<rparr>))"

text \<open>
  The \<^verbatim>\<open>mousemove\<close> and \<^verbatim>\<open>mouseup\<close> listeners of the placement drag (lines 315-356); they
  are installed only while \<^verbatim>\<open>isDraggingTimelineClip && draggingClipId\<close>.
\<close>

definition clipDragStartTime :: "real \<Rightarrow> timelineRect \<Rightarrow> real \<Rightarrow> real \<Rightarrow> real" where
  "clipDragStartTime clientX rect off z =
     (let x = clientX - rectLeft rect + scrollLeft rect - TRACK_LABEL_WIDTH - off
      in max 0 (x / PIXEL_PER_SECOND z))"

definition clipDragMouseMove :: "real \<Rightarrow> timelineRect option \<Rightarrow> editor \<Rightarrow> editor" where
  "clipDragMouseMove clientX timelineRef s =
     (if \<not> isDraggingTimelineClip s \<or> draggingClipId s = None \<or> draggingClipId s = Some []
      then s
      else case timelineRef of
             None \<Rightarrow> s
           | Some rect \<Rightarrow>
               (let newStartTime = clipDragStartTime clientX rect (dragOffset s) (zoom s)
                in s\<lparr>timelineClips :=
                       map (\<lambda>clip. if Some (clipId clip) = draggingClipId s
                                    then clip\<lparr>startTime := mathRound (newStartTime * 10) / 10\<rparr>
                                    else clip)
                           (timelineClips s)\<rparr>))"

definition clipDragMouseUp :: "editor \<Rightarrow> editor" where
  "clipDragMouseUp s =
     (if \<not> isDraggingTimelineClip s \<or> draggingClipId s = None \<or> draggingClipId s = Some []
      then s
      else s\<lparr>isDraggingTimelineClip := False, draggingClipId := None, dragOffset := 0\<rparr>)"

text \<open>\<^verbatim>\<open>handleDeleteClip\<close> (lines 358-363).\<close>

definition handleDeleteClip :: "string \<Rightarrow> editor \<Rightarrow> editor" where
  "handleDeleteClip cid s =
     (let s' = s\<lparr>timelineClips := filter (\<lambda>c. clipId c \<noteq> cid) (timelineClips s)\<rparr>
      in if selectedClip s = Some cid then s'\<lparr>selectedClip := None\<rparr> else s')"

text \<open>\<^verbatim>\<open>handleTimelineClick\<close>, the click-to-seek handler (lines 365-378).\<close>

definition clickTime :: "real \<Rightarrow> timelineRect \<Rightarrow> real \<Rightarrow> real" where
  "clickTime clientX rect z =
     (let x = clientX - rectLeft rect + scrollLeft rect - TRACK_LABEL_WIDTH
      in max 0 (x / PIXEL_PER_SECOND z))"

definition handleTimelineClick :: "real \<Rightarrow> timelineRect option \<Rightarrow> editor \<Rightarrow> editor" where
  "handleTimelineClick clientX timelineRef s =
     (if isDraggingPlayhead s \<or> isDraggingTimelineClip s then s
      else case timelineRef of
             None \<Rightarrow> s
           | Some rect \<Rightarrow>
               s\<lparr>currentTime := clickTime clientX rect (zoom s), isPlaying := False\<rparr>)"

text \<open>The playhead drag: \<^verbatim>\<open>handlePlayheadMouseDown\<close> and the listeners of lines 386-417.\<close>

definition handlePlayheadMouseDown :: "editor \<Rightarrow> editor" where
  "handlePlayheadMouseDown s = s\<lparr>isDraggingPlayhead := True, isPlaying := False\<rparr>"

definition playheadMouseMove :: "real \<Rightarrow> timelineRect option \<Rightarrow> editor \<Rightarrow> editor" where
  "playheadMouseMove clientX timelineRef s =
     (if \<not> isDraggingPlayhead s then s
      else case timelineRef of
             None \<Rightarrow> s
           | Some rect \<Rightarrow>
               (let x = clientX - rectLeft rect + scrollLeft rect - TRACK_LABEL_WIDTH;
                    time = max 0 (x / PIXEL_PER_SECOND (zoom s));
                    maxTime = mathMax (map clipEnd (timelineClips s)) 45
                in s\<lparr>currentTime := min time maxTime\<rparr>))"

definition playheadMouseUp :: "editor \<Rightarrow> editor" where
  "playheadMouseUp s = (if \<not> isDraggingPlayhead s then s else s\<lparr>isDraggingPlayhead := False\<rparr>)"

text \<open>The transport buttons (lines 419-429 and 749-772).\<close>

definition togglePlayPause :: "editor \<Rightarrow> editor" where
  "togglePlayPause s = s\<lparr>isPlaying := \<not> isPlaying s\<rparr>"

definition handleZoomIn :: "editor \<Rightarrow> editor" where
  "handleZoomIn s = s\<lparr>zoom := min (zoom s + 1 / 4) 3\<rparr>"

definition handleZoomOut :: "editor \<Rightarrow> editor" where
  "handleZoomOut s = s\<lparr>zoom := max (zoom s - 1 / 4) (1 / 2)\<rparr>"

definition skipBack :: "editor \<Rightarrow> editor" where
  "skipBack s = s\<lparr>currentTime := max 0 (currentTime s - 5)\<rparr>"

definition skipForward :: "editor \<Rightarrow> editor" where
  "skipForward s = s\<lparr>currentTime := currentTime s + 5\<rparr>"

section \<open>Export\<close>

text \<open>
  \<^verbatim>\<open>[...xs].sort(cmp)\<close>. \<^verbatim>\<open>Array.prototype.sort\<close> is stable, and for a comparator that
  orders the elements consistently its result is the one of a stable insertion sort: \<open>x\<close>
  goes before the first \<open>y\<close> with \<open>cmp x y \<le> 0\<close>, so equal elements keep their order.
\<close>

fun insertBy :: "('a \<Rightarrow> 'a \<Rightarrow> real) \<Rightarrow> 'a \<Rightarrow> 'a list \<Rightarrow> 'a list" where
  "insertBy cmp x [] = [x]"
| "insertBy cmp x (y # ys) = (if cmp x y \<le> 0 then x # y # ys else y # insertBy cmp x ys)"

definition arraySort :: "('a \<Rightarrow> 'a \<Rightarrow> real) \<Rightarrow> 'a list \<Rightarrow> 'a list" where
  "arraySort cmp xs = foldr (insertBy cmp) xs []"

text \<open>The comparator of \<^verbatim>\<open>exportTimeline\<close>: \<^verbatim>\<open>(a, b) => a.startTime - b.startTime\<close>.\<close>

definition cmpStart :: "TimelineClip \<Rightarrow> TimelineClip \<Rightarrow> real" where
  "cmpStart a b = startTime a - startTime b"

text \<open>The comparator of \<^verbatim>\<open>handleExport\<close> (lines 447-452): track first, a-roll before b-roll.\<close>

definition cmpTrackStart :: "TimelineClip \<Rightarrow> TimelineClip \<Rightarrow> real" where
  "cmpTrackStart a b =
     (if track a \<noteq> track b then (if track a = ARoll then - 1 else 1)
      else startTime a - startTime b)"

subsection \<open>Strategy A: \<^verbatim>\<open>exportTimeline\<close> (timelineExport.ts)\<close>

text \<open>\<^verbatim>\<open>Math.max(...xs)\<close> without a constant: \<open>None\<close> is \<^verbatim>\<open>-Infinity\<close>, the value for no argument.\<close>

definition mathMaxSpread :: "real list \<Rightarrow> real option" where
  "mathMaxSpread xs = (case xs of [] \<Rightarrow> None | x # rest \<Rightarrow> Some (mathMax rest x))"

datatype exportError = CanvasContextError | NoARollFound

text \<open>
  What one pass of \<^verbatim>\<open>renderFrame\<close> puts on the cleared canvas: \<open>DrawVideo u p\<close> sets the
  \<^verbatim>\<open>currentTime\<close> of the video element loaded from \<open>u\<close> to \<open>p\<close> and hands it to
  \<^verbatim>\<open>drawVideoToCanvas\<close>; \<open>DrawNothing\<close> leaves the black fill.
\<close>

datatype frame = DrawVideo string real | DrawNothing

text \<open>
  The loop that fills \<^verbatim>\<open>bRollVideos\<close>, the \<^verbatim>\<open>Map\<close> from clip id to preloaded video
  element (lines 63-76); an element is represented by the url it was loaded from.
\<close>

fun preloadBRolls :: "TimelineClip list \<Rightarrow> (string \<rightharpoonup> string) \<Rightarrow> (string \<rightharpoonup> string)" where
  "preloadBRolls [] bRollVideos = bRollVideos"
| "preloadBRolls (clip # rest) bRollVideos =
     preloadBRolls rest (bRollVideos(clipId clip \<mapsto> url (videoClip clip)))"

text \<open>The body of \<^verbatim>\<open>renderFrame\<close> between the clear and the clock step (lines 102-122).\<close>

definition renderFrame ::
  "string \<Rightarrow> TimelineClip list \<Rightarrow> (string \<rightharpoonup> string) \<Rightarrow> real \<Rightarrow> frame" where
  "renderFrame aRollVideo bRollClips bRollVideos t =
     (case find (activeAt t) bRollClips of
        Some activeBRoll \<Rightarrow>
          (case bRollVideos (clipId activeBRoll) of
             Some bRollVideo \<Rightarrow> DrawVideo bRollVideo (t - startTime activeBRoll)
           | None \<Rightarrow> DrawNothing)
      | None \<Rightarrow> DrawVideo aRollVideo t)"

text \<open>
  The variables that the render loop closes over, as they stand when the loop is entered:
  the a-roll video element, \<^verbatim>\<open>bRollClips\<close>, \<^verbatim>\<open>bRollVideos\<close> and \<^verbatim>\<open>totalDuration\<close>, the
  bound that the loop compares its clock with.
\<close>

record renderJob =
  aRollVideo :: string
  bRollClips :: "TimelineClip list"
  bRollVideos :: "string \<rightharpoonup> string"
  jobTotalDuration :: "real option"

text \<open>
  \<^verbatim>\<open>exportTimeline\<close> up to the start of the render loop (lines 11-82): the error thrown, or
  the variables of the loop. \<open>ctxOk\<close> says that \<^verbatim>\<open>canvas.getContext("2d")\<close> returned a
  context. Loading the media, the recorder and the blob it yields are the browser's part
  and are not modelled.
\<close>

definition exportTimeline :: "bool \<Rightarrow> TimelineClip list \<Rightarrow> exportError + renderJob" where
  "exportTimeline ctxOk timeline =
     (let sortedTimeline = arraySort cmpStart timeline;
          totalDuration = mathMaxSpread (map clipEnd sortedTimeline)
      in if \<not> ctxOk then Inl CanvasContextError
         else case find (\<lambda>c. track c = ARoll) sortedTimeline of
                None \<Rightarrow> Inl NoARollFound
              | Some aRollClip \<Rightarrow>
                  (let bRollClips = filter (\<lambda>c. track c = BRoll) sortedTimeline;
                       bRollVideos = preloadBRolls bRollClips Map.empty
                   in Inr \<lparr>aRollVideo = url (videoClip aRollClip), bRollClips = bRollClips,
                           bRollVideos = bRollVideos, jobTotalDuration = totalDuration\<rparr>))"

text \<open>
  The state of the render loop (lines 81-130): its clock \<^verbatim>\<open>currentTime\<close>, the frames drawn
  on the canvas so far, and whether the promise of \<^verbatim>\<open>render\<close> is resolved.
\<close>

record renderState =
  renderTime :: real
  drawn :: "frame list"
  resolved :: bool

definition renderStart :: renderState where
  "renderStart = \<lparr>renderTime = 0, drawn = [], resolved = False\<rparr>"

text \<open>\<^verbatim>\<open>const frameDuration = 1 / FPS\<close> with \<^verbatim>\<open>FPS = 30\<close>.\<close>

definition frameDuration :: real where
  "frameDuration = 1 / 30"

text \<open>\<^verbatim>\<open>currentTime >= totalDuration\<close>, where \<open>None\<close> is \<^verbatim>\<open>-Infinity\<close>.\<close>

definition atOrPast :: "real \<Rightarrow> real option \<Rightarrow> bool" where
  "atOrPast t tot = (case tot of None \<Rightarrow> True | Some T \<Rightarrow> t \<ge> T)"

text \<open>
  One call of the callback \<^verbatim>\<open>renderFrame\<close> (lines 87-126), which
  \<^verbatim>\<open>requestAnimationFrame\<close> schedules again until it resolves the promise; a resolved loop
  is called no more. The step \<^verbatim>\<open>currentTime += frameDuration\<close> is an addition of doubles
  that accumulates over the frames, and its rounding is not an operation of the reals: the
  addition is the parameter \<open>fadd\<close>, of which nothing is assumed.
\<close>

definition renderFrameStep ::
  "(real \<Rightarrow> real \<Rightarrow> real) \<Rightarrow> renderJob \<Rightarrow> renderState \<Rightarrow> renderState" where
  "renderFrameStep fadd job s =
     (if resolved s then s
      else if atOrPast (renderTime s) (jobTotalDuration job) then s\<lparr>resolved := True\<rparr>
      else s\<lparr>drawn := drawn s @
                 [renderFrame (aRollVideo job) (bRollClips job) (bRollVideos job) (renderTime s)],
              renderTime := fadd (renderTime s) frameDuration\<rparr>)"

subsection \<open>Strategy B: \<^verbatim>\<open>handleExport\<close> (TimelineEditor.tsx)\<close>

text \<open>The two \<^verbatim>\<open>alert\<close>s that end \<^verbatim>\<open>handleExport\<close> before anything is built.\<close>

datatype exportAlert = NoClipsOnTimeline | FfmpegStillLoading

text \<open>The pad labels of the filter graph: \<^verbatim>\<open>[base]\<close>, \<^verbatim>\<open>[tmpN]\<close>, \<^verbatim>\<open>[out]\<close>, \<^verbatim>\<open>[bN]\<close>, \<^verbatim>\<open>[vN]\<close>.\<close>

datatype padLabel = PadBase | PadTmp nat | PadOut | PadB nat | PadV nat

text \<open>
  The \<^verbatim>\<open>filterComplex\<close> string, one constructor for each semicolon-separated segment the
  code appends (every segment scales to 1080x1920 with
  \<^verbatim>\<open>force_original_aspect_ratio=decrease\<close> and pads centred):
  \<^item> \<open>ScalePadBase\<close>: \<^verbatim>\<open>[0:v]scale,pad,setpts=PTS-STARTPTS[base]\<close>;
  \<^item> \<open>ScalePadShift i s l\<close>: \<^verbatim>\<open>[i:v]scale,pad,setpts=PTS-STARTPTS+s/TB[l]\<close>;
  \<^item> \<open>Overlay a b s e l\<close>: \<^verbatim>\<open>[a][b]overlay=enable='between(t,s,e)'[l]\<close>;
  \<^item> \<open>ScalePad i l\<close>: \<^verbatim>\<open>[i:v]scale,pad[l]\<close>;
  \<^item> \<open>Concat ls n l\<close>: \<^verbatim>\<open>ls concat=n=n:v=1:a=0[l]\<close>.
  The separators are not represented, so \<^verbatim>\<open>filterComplex.slice(0, -1)\<close>, which drops the
  trailing semicolon of the overlay branch, leaves the list as it is.
\<close>

datatype filterStage =
    ScalePadBase
  | ScalePadShift nat real padLabel
  | Overlay padLabel padLabel real real padLabel
  | ScalePad nat padLabel
  | Concat "padLabel list" nat padLabel

text \<open>The label that a segment of the graph writes: the bracket that ends it.\<close>

fun stageOutput :: "filterStage \<Rightarrow> padLabel" where
  "stageOutput ScalePadBase = PadBase"
| "stageOutput (ScalePadShift i s l) = l"
| "stageOutput (Overlay a b s e l) = l"
| "stageOutput (ScalePad i l) = l"
| "stageOutput (Concat ls n l) = l"

text \<open>
  What \<^verbatim>\<open>handleExport\<close> hands to the encoder: the files it wrote to the encoder's
  filesystem (\<open>(n, u)\<close>: \<^verbatim>\<open>inputN.mp4\<close> holds the bytes fetched from \<open>u\<close>), and the
  arguments of \<^verbatim>\<open>ffmpeg.exec\<close>: the \<^verbatim>\<open>-i\<close> files in order (\<open>Some n\<close> is \<^verbatim>\<open>inputN.mp4\<close>,
  \<open>None\<close> an \<^verbatim>\<open>undefined\<close> from \<^verbatim>\<open>fileMap.get\<close>), the filter graph, \<^verbatim>\<open>-map\<close>, \<^verbatim>\<open>-r\<close> and
  \<^verbatim>\<open>-t\<close>.
\<close>

record ffmpegJob =
  virtualFiles :: "(nat \<times> string) list"
  inputs :: "nat option list"
  filterComplex :: "filterStage list"
  mapLabel :: padLabel
  outputRate :: nat
  outputLimit :: real

text \<open>
  The loop that fetches and writes each distinct url once (lines 466-477); the state is
  \<^verbatim>\<open>fileMap\<close>, \<^verbatim>\<open>fileIndex\<close> and the files written so far.
\<close>

fun writeFiles ::
  "TimelineClip list \<Rightarrow> (string \<rightharpoonup> nat) \<Rightarrow> nat \<Rightarrow> (nat \<times> string) list
   \<Rightarrow> (string \<rightharpoonup> nat) \<times> (nat \<times> string) list" where
  "writeFiles [] fileMap fileIndex written = (fileMap, written)"
| "writeFiles (clip # rest) fileMap fileIndex written =
     (if fileMap (url (videoClip clip)) = None
      then writeFiles rest (fileMap(url (videoClip clip) \<mapsto> fileIndex)) (Suc fileIndex)
             (written @ [(fileIndex, url (videoClip clip))])
      else writeFiles rest fileMap fileIndex written)"

text \<open>
  \<^verbatim>\<open>bRollClips.forEach((bClip, idx) => ...)\<close> of the overlay branch (lines 498-511), over
  the clips paired with their indices. The state is \<^verbatim>\<open>inputs\<close> (one entry for each
  \<^verbatim>\<open>"-i", file\<close> pair, so its length is \<^verbatim>\<open>inputs.length / 2\<close>), \<^verbatim>\<open>filterComplex\<close> and
  \<^verbatim>\<open>currentOutput\<close>; \<open>n\<close> is \<^verbatim>\<open>bRollClips.length\<close>.
\<close>

fun overlayLoop ::
  "(string \<rightharpoonup> nat) \<Rightarrow> nat \<Rightarrow> (nat \<times> TimelineClip) list
   \<Rightarrow> nat option list \<times> filterStage list \<times> padLabel
   \<Rightarrow> nat option list \<times> filterStage list \<times> padLabel" where
  "overlayLoop fileMap n [] st = st"
| "overlayLoop fileMap n ((idx, bClip) # rest) (ins, fc, currentOutput) =
     (let bRollFile = fileMap (url (videoClip bClip));
          inputIndex = length ins;
          nextOutput = (if int idx = int n - 1 then PadOut else PadTmp idx)
      in overlayLoop fileMap n rest
           (ins @ [bRollFile],
            fc @ [ScalePadShift inputIndex (startTime bClip) (PadB idx),
                  Overlay currentOutput (PadB idx) (startTime bClip)
                    (startTime bClip + duration bClip) nextOutput],
            nextOutput))"

text \<open>The \<^verbatim>\<open>forEach\<close> of the branch without a-roll (lines 518-522).\<close>

fun concatLoop ::
  "(string \<rightharpoonup> nat) \<Rightarrow> (nat \<times> TimelineClip) list
   \<Rightarrow> nat option list \<times> filterStage list \<Rightarrow> nat option list \<times> filterStage list" where
  "concatLoop fileMap [] st = st"
| "concatLoop fileMap ((idx, clip) # rest) (ins, fc) =
     concatLoop fileMap rest
       (ins @ [fileMap (url (videoClip clip))], fc @ [ScalePad idx (PadV idx)])"

text \<open>
  \<^verbatim>\<open>handleExport\<close> up to the call of \<^verbatim>\<open>ffmpeg.exec\<close> (lines 431-549): the result is the
  alert shown, or the job handed to the encoder. Fetching the files and the encoder's run
  are the environment's part and are not modelled.
\<close>

definition handleExport :: "bool \<Rightarrow> TimelineClip list \<Rightarrow> exportAlert + ffmpegJob" where
  "handleExport ffmpegLoaded clips =
     (if length clips = 0 then Inl NoClipsOnTimeline
      else if \<not> ffmpegLoaded then Inl FfmpegStillLoading
      else
        (let sorted = arraySort cmpTrackStart clips;
             aRollClips = filter (\<lambda>c. track c = ARoll) sorted;
             bRollClips = filter (\<lambda>c. track c = BRoll) sorted;
             totalDuration = mathMax (map clipEnd sorted) 0;
             (fileMap, written) = writeFiles sorted Map.empty 0 [];
             indexed = zip [0..<length bRollClips] bRollClips
         in case aRollClips of
              aRollClip # _ \<Rightarrow>
                (let (ins, fc, currentOutput) =
                       overlayLoop fileMap (length bRollClips) indexed
                         ([fileMap (url (videoClip aRollClip))], [ScalePadBase], PadBase)
                 in Inr \<lparr>virtualFiles = written, inputs = ins, filterComplex = fc,
                         mapLabel = PadOut, outputRate = 30, outputLimit = totalDuration\<rparr>)
            | [] \<Rightarrow>
                (let (ins, fc) = concatLoop fileMap indexed ([], [])
                 in Inr \<lparr>virtualFiles = written, inputs = ins,
                         filterComplex =
                           fc @ [Concat (map PadV [0..<length bRollClips]) (length bRollClips) PadOut],
                         mapLabel = PadOut, outputRate = 30, outputLimit = totalDuration\<rparr>)))"

text \<open>
  The key that \<open>cmpTrackStart\<close> compares: the track (a-roll before b-roll), then the start
  time. It is used to relate \<open>arraySort\<close> to the library's stable \<open>sort_key\<close>.
\<close>

definition trackKey :: "TimelineClip \<Rightarrow> nat \<times> real" where
  "trackKey c = (case track c of ARoll \<Rightarrow> 0 | BRoll \<Rightarrow> 1, startTime c)"

text \<open>
  Timelines for the examples, with times that are binary fractions: a one second a-roll
  \<open>baseA\<close> with a b-roll \<open>overB\<close> over its first half, an a-roll \<open>gapA\<close> that starts after
  half a second, two b-rolls over the same half second, and a b-roll \<open>lateX\<close> inserted
  before \<open>earlyY\<close> but starting after it.
\<close>

definition baseA :: TimelineClip where
  "baseA = mkClip ''a'' ''a.mp4'' ARoll 0 1"

definition overB :: TimelineClip where
  "overB = mkClip ''b'' ''b.mp4'' BRoll 0 (1 / 2)"

definition gapA :: TimelineClip where
  "gapA = mkClip ''a'' ''a.mp4'' ARoll (1 / 2) (1 / 2)"

definition overlapX :: TimelineClip where
  "overlapX = mkClip ''x'' ''x.mp4'' BRoll 0 (1 / 2)"

definition overlapY :: TimelineClip where
  "overlapY = mkClip ''y'' ''y.mp4'' BRoll 0 (1 / 2)"

definition lateX :: TimelineClip where
  "lateX = mkClip ''x'' ''x.mp4'' BRoll (1 / 4) (1 / 2)"

definition earlyY :: TimelineClip where
  "earlyY = mkClip ''y'' ''y.mp4'' BRoll 0 1"

text \<open>The variables of the render loop for the timeline \<open>[baseA, overB]\<close>.\<close>

definition demoJob :: renderJob where
  "demoJob = \<lparr>aRollVideo = ''a.mp4'', bRollClips = [overB],
              bRollVideos = [''b'' \<mapsto> ''b.mp4''], jobTotalDuration = Some 1\<rparr>"

text \<open>A ten second a-roll, and the editor showing a timeline at a time, playing or not.\<close>

definition longA :: TimelineClip where
  "longA = mkClip ''a'' ''a.mp4'' ARoll 0 10"

definition editorAt :: "TimelineClip list \<Rightarrow> real \<Rightarrow> bool \<Rightarrow> editor" where
  "editorAt cs t playing = initialEditor\<lparr>timelineClips := cs, currentTime := t, isPlaying := playing\<rparr>"

text \<open>The defining equations that evaluate the concrete examples.\<close>

lemmas example_eval =
  exportTimeline_def arraySort_def cmpStart_def mkClip_def mkVideo_def
  mathMaxSpread_def mathMax_def clipEnd_def renderFrame_def activeAt_def
  previewActiveClip_def handleExport_def cmpTrackStart_def
  renderFrameStep_def renderStart_def atOrPast_def frameDuration_def
  baseA_def overB_def gapA_def overlapX_def overlapY_def lateX_def earlyY_def
  longA_def editorAt_def initialEditor_def demoJob_def

section \<open>Derived total duration\<close>

lemma mathMax_Max: "mathMax xs c = Max (insert c (set xs))"
proof (induction xs)
  case Nil
  show ?case by (simp add: mathMax_def)
next
  case (Cons x xs)
  have "mathMax (x # xs) c = max x (mathMax xs c)"
    by (simp add: mathMax_def)
  also have "\<dots> = max x (Max (insert c (set xs)))"
    by (simp only: Cons.IH)
  also have "\<dots> = Max (insert x (insert c (set xs)))"
    by simp
  finally show ?case
    by (simp add: insert_commute)
qed

lemma mathMax_ge_const: "c \<le> mathMax xs c"
  by (simp add: mathMax_Max)

lemma mathMax_ge_elem: "x \<in> set xs \<Longrightarrow> x \<le> mathMax xs c"
  by (simp add: mathMax_Max)

text \<open>
  C3 (as stated it fails). The claim says that \<open>totalDuration\<close> is the maximum of
  \<open>startTime + duration\<close> over the placements, that the 45 second floor appears only for the
  empty timeline, and that a single a-roll placement \<open>{start: 0, duration: 10}\<close> gives 10.
  The code passes 45 as an extra argument of \<^verbatim>\<open>Math.max\<close>, so that timeline gives 45.
\<close>

theorem totalDuration_single_aroll_counterexample:
  "totalDuration [mkClip ''a'' ''a.mp4'' ARoll 0 10] = 45
   \<and> totalDuration [mkClip ''a'' ''a.mp4'' ARoll 0 10] \<noteq> 10"
  by (simp add: totalDuration_def mathMax_def clipEnd_def mkClip_def)

text \<open>
  C3 (amended). \<open>totalDuration\<close> is the maximum of 45 and of \<open>startTime + duration\<close> over all
  placements: it is never below 45, and for the single a-roll placement
  \<open>{start: 0, duration: 10}\<close> it is 45.
\<close>

theorem totalDuration_is_floored_max:
  "totalDuration cs = Max (insert 45 (set (map (\<lambda>c. startTime c + duration c) cs)))
   \<and> 45 \<le> totalDuration cs
   \<and> totalDuration [] = 45
   \<and> totalDuration [mkClip ''a'' ''a.mp4'' ARoll 0 10] = 45"
proof -
  have "map clipEnd cs = map (\<lambda>c. startTime c + duration c) cs"
    by (simp add: clipEnd_def)
  then have "totalDuration cs = Max (insert 45 (set (map (\<lambda>c. startTime c + duration c) cs)))"
    by (simp only: totalDuration_def mathMax_Max)
  moreover have "45 \<le> totalDuration cs"
    by (simp add: totalDuration_def mathMax_ge_const)
  moreover have "totalDuration [] = 45"
    by (simp add: totalDuration_def mathMax_def)
  moreover have "totalDuration [mkClip ''a'' ''a.mp4'' ARoll 0 10] = 45"
    by (simp add: totalDuration_def mathMax_def clipEnd_def mkClip_def)
  ultimately show ?thesis by blast
qed

section \<open>Lists: the first match of \<open>find\<close>\<close>






section \<open>The preview resolver\<close>







section \<open>Sorting\<close>

lemma insertBy_cmpStart: "insertBy cmpStart x ys = insort_key startTime x ys"
  by (induction ys) (simp_all add: cmpStart_def)

lemma arraySort_cmpStart: "arraySort cmpStart xs = sort_key startTime xs"
  by (induction xs) (simp_all add: arraySort_def insertBy_cmpStart)

lemma cmpTrackStart_key: "cmpTrackStart a b \<le> 0 \<longleftrightarrow> trackKey a \<le> trackKey b"
  by (cases "track a"; cases "track b") (simp_all add: cmpTrackStart_def trackKey_def)

lemma insertBy_cmpTrackStart: "insertBy cmpTrackStart x ys = insort_key trackKey x ys"
  by (induction ys) (simp_all add: cmpTrackStart_key)

lemma arraySort_cmpTrackStart: "arraySort cmpTrackStart xs = sort_key trackKey xs"
  by (induction xs) (simp_all add: arraySort_def insertBy_cmpTrackStart)

lemma insort_key_same_order:
  assumes "\<forall>y \<in> set ys. (f x \<le> f y) = (g x \<le> g y)"
  shows "insort_key f x ys = insort_key g x ys"
  using assms by (induction ys) simp_all

lemma sort_key_same_order:
  assumes "\<forall>x \<in> set xs. \<forall>y \<in> set xs. (f x \<le> f y) = (g x \<le> g y)"
  shows "sort_key f xs = sort_key g xs"
  using assms
proof (induction xs)
  case Nil
  show ?case by simp
next
  case (Cons x xs)
  then have "sort_key f xs = sort_key g xs" by simp
  moreover have "insort_key f x (sort_key g xs) = insort_key g x (sort_key g xs)"
    using Cons.prems by (intro insort_key_same_order) simp
  ultimately show ?case by simp
qed

lemma bRolls_of_sorted:
  "filter (\<lambda>c. track c = BRoll) (arraySort cmpTrackStart cs)
     = sort_key startTime (filter (\<lambda>c. track c = BRoll) cs)"
proof -
  have "filter (\<lambda>c. track c = BRoll) (sort_key trackKey cs)
          = sort_key trackKey (filter (\<lambda>c. track c = BRoll) cs)"
    by (rule filter_sort)
  also have "\<dots> = sort_key startTime (filter (\<lambda>c. track c = BRoll) cs)"
    by (rule sort_key_same_order) (simp add: trackKey_def)
  finally show ?thesis by (simp only: arraySort_cmpTrackStart)
qed

lemma aRolls_of_sorted:
  "filter (\<lambda>c. track c = ARoll) (arraySort cmpTrackStart cs)
     = sort_key startTime (filter (\<lambda>c. track c = ARoll) cs)"
proof -
  have "filter (\<lambda>c. track c = ARoll) (sort_key trackKey cs)
          = sort_key trackKey (filter (\<lambda>c. track c = ARoll) cs)"
    by (rule filter_sort)
  also have "\<dots> = sort_key startTime (filter (\<lambda>c. track c = ARoll) cs)"
    by (rule sort_key_same_order) (simp add: trackKey_def)
  finally show ?thesis by (simp only: arraySort_cmpTrackStart)
qed

lemma set_arraySort_cmpTrackStart: "set (arraySort cmpTrackStart cs) = set cs"
  by (simp add: arraySort_cmpTrackStart)

lemma set_arraySort_cmpStart: "set (arraySort cmpStart cs) = set cs"
  by (simp add: arraySort_cmpStart)

section \<open>The frame loop of Strategy A\<close>



lemma mathMaxSpread_Max: "xs \<noteq> [] \<Longrightarrow> mathMaxSpread xs = Some (Max (set xs))"
  by (cases xs) (simp_all add: mathMaxSpread_def mathMax_Max)









lemma exportTimeline_no_aRoll:
  "\<not> (\<exists>c \<in> set cs. track c = ARoll) \<Longrightarrow> exportTimeline True cs = Inl NoARollFound"
proof -
  assume "\<not> (\<exists>c \<in> set cs. track c = ARoll)"
  then have "find (\<lambda>c. track c = ARoll) (arraySort cmpStart cs) = None"
    by (auto simp: find_None_iff set_arraySort_cmpStart)
  then show ?thesis by (simp add: exportTimeline_def Let_def)
qed

lemma exportTimeline_with_aRoll:
  assumes "a \<in> set cs" "track a = ARoll"
  shows "\<exists>job. exportTimeline True cs = Inr job"
proof -
  have "find (\<lambda>c. track c = ARoll) (arraySort cmpStart cs) \<noteq> None"
    using assms by (auto simp: find_None_iff set_arraySort_cmpStart)
  then show ?thesis by (auto simp: exportTimeline_def Let_def)
qed

section \<open>Which source is shown\<close>




section \<open>Overlapping placements on one track\<close>






section \<open>The playback synchronizer\<close>

text \<open>The calls of the preview effect, in order; \<^verbatim>\<open>pause()\<close> is never among them.\<close>

lemma syncPreview_calls:
  "(previewActiveClip (timelineClips s) (currentTime s) = Some c \<longrightarrow>
      syncPreview (Some src) s =
        (if src \<noteq> url (videoClip c) then [AssignSrc (url (videoClip c))] else [])
        @ [AssignCurrentTime (currentTime s - startTime c)]
        @ (if isPlaying s then [CallPlay] else []))
   \<and> (previewActiveClip (timelineClips s) (currentTime s) = None \<longrightarrow> syncPreview (Some src) s = [])
   \<and> syncPreview None s = []
   \<and> CallPause \<notin> set (syncPreview v s)"
  by (simp add: syncPreview_def Let_def split: option.split)

text \<open>
  C5 (the code misses the pause). The claim says that the effect assigns the source only
  when it differs, then sets the position to \<open>currentTime - startTime\<close>, then plays if the
  transport is playing and pauses otherwise. The effect has no \<^verbatim>\<open>else\<close> for
  \<^verbatim>\<open>if (isPlaying)\<close>: with the transport paused at 2 s inside a ten second a-roll whose
  url the element already holds, the only call is the assignment of the position.
\<close>

theorem preview_sync_paused_makes_no_pause_call:
  "syncPreview (Some ''a.mp4'') (editorAt [longA] 2 False) = [AssignCurrentTime 2]
   \<and> syncPreview (Some ''old.mp4'') (editorAt [longA] 2 True)
        = [AssignSrc ''a.mp4'', AssignCurrentTime 2, CallPlay]
   \<and> CallPause \<notin> set (syncPreview (Some ''a.mp4'') (editorAt [longA] 2 False))"
  by (simp add: syncPreview_def example_eval)

section \<open>The transport\<close>









text \<open>
  C8 (the code misses a clamp). The claim says that no operation drives \<open>currentTime\<close>
  above \<open>totalDuration\<close>. Skip-back clamps at 0 and the playhead drag clamps at both ends,
  but skip-forward adds 5 without a clamp: ten presses from the initial editor (empty
  timeline, \<open>totalDuration\<close> 45) leave \<open>currentTime\<close> at 50. The playhead drag of the same
  editor stays at 45.
\<close>

theorem skip_forward_exceeds_totalDuration:
  "currentTime ((skipForward ^^ 10) initialEditor) = 50
   \<and> totalDuration (timelineClips ((skipForward ^^ 10) initialEditor)) = 45
   \<and> currentTime (playheadMouseMove 5000 (Some \<lparr>rectLeft = 0, scrollLeft = 0\<rparr>)
        (handlePlayheadMouseDown initialEditor)) = 45
   \<and> currentTime (skipBack initialEditor) = 0"
  by (simp add: eval_nat_numeral skipForward_def skipBack_def initialEditor_def totalDuration_def
      mathMax_def playheadMouseMove_def handlePlayheadMouseDown_def PIXEL_PER_SECOND_def
      TRACK_LABEL_WIDTH_def)

section \<open>Pointer positions to times\<close>

lemma pointer_time_mono:
  assumes "0 < z" "x \<le> x'"
  shows "max 0 (x / PIXEL_PER_SECOND z) \<le> max 0 (x' / PIXEL_PER_SECOND z)"
proof -
  have "0 < PIXEL_PER_SECOND z" using assms(1) by (simp add: PIXEL_PER_SECOND_def)
  then have "x / PIXEL_PER_SECOND z \<le> x' / PIXEL_PER_SECOND z"
    using assms(2) by (simp add: divide_right_mono)
  then show ?thesis by (rule max.mono [OF order_refl])
qed

lemma mathRound_mono: "x \<le> y \<Longrightarrow> mathRound x \<le> mathRound y"
  by (simp add: mathRound_def floor_mono)

lemma mathRound_nonneg: "0 \<le> x \<Longrightarrow> 0 \<le> mathRound x"
  by (simp add: mathRound_def)

lemma mathRound_grid:
  assumes "0 \<le> x"
  shows "\<exists>n::nat. mathRound (x * 10) / 10 = real n / 10"
proof -
  have "0 \<le> \<lfloor>x * 10 + 1 / 2\<rfloor>" using assms by simp
  then have "real (nat \<lfloor>x * 10 + 1 / 2\<rfloor>) = of_int \<lfloor>x * 10 + 1 / 2\<rfloor>" by simp
  then have "mathRound (x * 10) / 10 = real (nat \<lfloor>x * 10 + 1 / 2\<rfloor>) / 10"
    by (simp only: mathRound_def)
  then show ?thesis by blast
qed

lemma mathRound_near: "\<bar>mathRound (x * 10) / 10 - x\<bar> \<le> 1 / 20"
proof -
  have "\<bar>of_int (round (x * 10)) - x * 10\<bar> \<le> 1 / 2" by (rule of_int_round_abs_le)
  then have "\<bar>mathRound (x * 10) - x * 10\<bar> \<le> 1 / 2" by (simp add: mathRound_def round_def)
  then show ?thesis by (simp add: field_simps abs_le_iff) 
qed

lemma dropStartTime_formula:
  "dropStartTime x rect z
     = max 0 ((x - rectLeft rect - TRACK_LABEL_WIDTH + scrollLeft rect) / (50 * z))"
  by (simp add: dropStartTime_def PIXEL_PER_SECOND_def algebra_simps)

lemma clickTime_formula:
  "clickTime x rect z
     = max 0 ((x - rectLeft rect - TRACK_LABEL_WIDTH + scrollLeft rect) / (50 * z))"
  by (simp add: clickTime_def PIXEL_PER_SECOND_def algebra_simps)

lemma clipDragStartTime_formula:
  "clipDragStartTime x rect off z
     = max 0 ((x - rectLeft rect - off - TRACK_LABEL_WIDTH + scrollLeft rect) / (50 * z))"
  by (simp add: clipDragStartTime_def PIXEL_PER_SECOND_def algebra_simps)

lemma dropStartTime_mono: "0 < z \<Longrightarrow> x \<le> x' \<Longrightarrow> dropStartTime x rect z \<le> dropStartTime x' rect z"
  unfolding dropStartTime_def Let_def by (intro pointer_time_mono) simp_all

lemma clickTime_mono: "0 < z \<Longrightarrow> x \<le> x' \<Longrightarrow> clickTime x rect z \<le> clickTime x' rect z"
  unfolding clickTime_def Let_def by (intro pointer_time_mono) simp_all

lemma clipDragStartTime_mono:
  "0 < z \<Longrightarrow> x \<le> x' \<Longrightarrow> clipDragStartTime x rect off z \<le> clipDragStartTime x' rect off z"
  unfolding clipDragStartTime_def Let_def by (intro pointer_time_mono) simp_all

lemma dropStartTime_nonneg: "0 \<le> dropStartTime cx rect z"
  by (simp add: dropStartTime_def)

lemma clipDragStartTime_nonneg: "0 \<le> clipDragStartTime cx rect off z"
  by (simp add: clipDragStartTime_def)

lemma handleTimelineClick_time:
  assumes "\<not> isDraggingPlayhead s" "\<not> isDraggingTimelineClip s"
  shows "handleTimelineClick x (Some rect) s
           = s\<lparr>currentTime := clickTime x rect (zoom s), isPlaying := False\<rparr>"
  using assms by (simp add: handleTimelineClick_def)

lemma handleDrop_appends:
  assumes "draggedClip s = Some v"
  shows "timelineClips (handleDrop cx (Some rect) tr newId s)
           = timelineClips s @
             [\<lparr>clipId = newId, videoClip = v,
               startTime = mathRound (dropStartTime cx rect (zoom s) * 10) / 10,
               duration = numberOr (videoDuration v) 3, track = tr\<rparr>]"
  using assms by (simp add: handleDrop_def Let_def)

lemma clipDragMouseMove_maps:
  assumes "isDraggingTimelineClip s" "draggingClipId s = Some cid" "cid \<noteq> []"
  shows "timelineClips (clipDragMouseMove cx (Some rect) s)
           = map (\<lambda>clip. if clipId clip = cid
                          then clip\<lparr>startTime :=
                                 mathRound (clipDragStartTime cx rect (dragOffset s) (zoom s) * 10) / 10\<rparr>
                          else clip)
                 (timelineClips s)"
  using assms by (simp add: clipDragMouseMove_def Let_def)

lemma playheadMouseMove_time:
  assumes "isDraggingPlayhead s"
  shows "currentTime (playheadMouseMove x (Some rect) s)
           = min (clickTime x rect (zoom s)) (totalDuration (timelineClips s))"
  using assms by (simp add: playheadMouseMove_def clickTime_def totalDuration_def Let_def)

text \<open>
  C9. Each handler derives its time as
  \<open>max 0 ((pointerX - trackLabelWidth + scrollOffset) / (50 * zoom))\<close>, where \<open>pointerX\<close> is
  the pointer's \<^verbatim>\<open>clientX\<close> relative to the left edge of the timeline (for a placement
  drag, less the offset recorded at the press): click-to-seek stores it in \<open>currentTime\<close>,
  a library drop and a placement drag store it, rounded to tenths, in the start time of
  the placement appended or moved, and the playhead drag stores it capped at
  \<open>totalDuration\<close>. For a positive zoom and a fixed scroll offset each stored time is
  monotonically non-decreasing in the pointer position and never negative.
\<close>

theorem drag_time_monotone_nonneg:
  assumes "0 < zoom s" "x \<le> x'"
  shows
    "(\<not> isDraggingPlayhead s \<and> \<not> isDraggingTimelineClip s \<longrightarrow>
        currentTime (handleTimelineClick x (Some rect) s)
          = max 0 ((x - rectLeft rect - TRACK_LABEL_WIDTH + scrollLeft rect) / (50 * zoom s))
        \<and> currentTime (handleTimelineClick x (Some rect) s)
            \<le> currentTime (handleTimelineClick x' (Some rect) s)
        \<and> 0 \<le> currentTime (handleTimelineClick x (Some rect) s))
     \<and> (draggedClip s = Some v \<longrightarrow>
        timelineClips (handleDrop x (Some rect) tr newId s)
          = timelineClips s @
            [\<lparr>clipId = newId, videoClip = v,
              startTime = mathRound (max 0 ((x - rectLeft rect - TRACK_LABEL_WIDTH + scrollLeft rect)
                                            / (50 * zoom s)) * 10) / 10,
              duration = numberOr (videoDuration v) 3, track = tr\<rparr>]
        \<and> startTime (last (timelineClips (handleDrop x (Some rect) tr newId s)))
            \<le> startTime (last (timelineClips (handleDrop x' (Some rect) tr newId s)))
        \<and> 0 \<le> startTime (last (timelineClips (handleDrop x (Some rect) tr newId s))))
     \<and> (isDraggingTimelineClip s \<and> draggingClipId s = Some cid \<and> cid \<noteq> [] \<longrightarrow>
        timelineClips (clipDragMouseMove x (Some rect) s)
          = map (\<lambda>clip. if clipId clip = cid
                         then clip\<lparr>startTime :=
                                mathRound (max 0 ((x - rectLeft rect - dragOffset s
                                                   - TRACK_LABEL_WIDTH + scrollLeft rect)
                                                  / (50 * zoom s)) * 10) / 10\<rparr>
                         else clip)
                (timelineClips s)
        \<and> (\<forall>i < length (timelineClips s). clipId (timelineClips s ! i) = cid \<longrightarrow>
              startTime (timelineClips (clipDragMouseMove x (Some rect) s) ! i)
                \<le> startTime (timelineClips (clipDragMouseMove x' (Some rect) s) ! i)
              \<and> 0 \<le> startTime (timelineClips (clipDragMouseMove x (Some rect) s) ! i)))
     \<and> (isDraggingPlayhead s \<longrightarrow>
        currentTime (playheadMouseMove x (Some rect) s)
          = min (max 0 ((x - rectLeft rect - TRACK_LABEL_WIDTH + scrollLeft rect) / (50 * zoom s)))
                (totalDuration (timelineClips s))
        \<and> currentTime (playheadMouseMove x (Some rect) s)
            \<le> currentTime (playheadMouseMove x' (Some rect) s)
        \<and> 0 \<le> currentTime (playheadMouseMove x (Some rect) s))"
proof (intro conjI impI allI)
  assume a: "\<not> isDraggingPlayhead s \<and> \<not> isDraggingTimelineClip s"
  then have c: "currentTime (handleTimelineClick y (Some rect) s) = clickTime y rect (zoom s)" for y
    by (simp add: handleTimelineClick_time)
  show "currentTime (handleTimelineClick x (Some rect) s)
          = max 0 ((x - rectLeft rect - TRACK_LABEL_WIDTH + scrollLeft rect) / (50 * zoom s))"
    by (simp only: c clickTime_formula)
  show "currentTime (handleTimelineClick x (Some rect) s)
            \<le> currentTime (handleTimelineClick x' (Some rect) s)"
    using assms by (simp only: c clickTime_mono)
  show "0 \<le> currentTime (handleTimelineClick x (Some rect) s)"
    by (simp add: c clickTime_def)
next
  assume d: "draggedClip s = Some v"
  have l: "startTime (last (timelineClips (handleDrop y (Some rect) tr newId s)))
             = mathRound (dropStartTime y rect (zoom s) * 10) / 10" for y
    by (simp add: handleDrop_appends [OF d])
  show "timelineClips (handleDrop x (Some rect) tr newId s)
          = timelineClips s @
            [\<lparr>clipId = newId, videoClip = v,
              startTime = mathRound (max 0 ((x - rectLeft rect - TRACK_LABEL_WIDTH + scrollLeft rect)
                                            / (50 * zoom s)) * 10) / 10,
              duration = numberOr (videoDuration v) 3, track = tr\<rparr>]"
    by (simp only: handleDrop_appends [OF d] dropStartTime_formula)
  show "startTime (last (timelineClips (handleDrop x (Some rect) tr newId s)))
            \<le> startTime (last (timelineClips (handleDrop x' (Some rect) tr newId s)))"
    using dropStartTime_mono [OF assms, of rect] by (simp add: l mathRound_mono)
  show "0 \<le> startTime (last (timelineClips (handleDrop x (Some rect) tr newId s)))"
    using dropStartTime_nonneg [of x rect "zoom s"] by (simp add: l mathRound_nonneg)
next
  assume g: "isDraggingTimelineClip s \<and> draggingClipId s = Some cid \<and> cid \<noteq> []"
  then have m: "timelineClips (clipDragMouseMove y (Some rect) s)
           = map (\<lambda>clip. if clipId clip = cid
                          then clip\<lparr>startTime :=
                                 mathRound (clipDragStartTime y rect (dragOffset s) (zoom s) * 10) / 10\<rparr>
                          else clip)
                 (timelineClips s)" for y
    by (simp add: clipDragMouseMove_maps)
  show "timelineClips (clipDragMouseMove x (Some rect) s)
          = map (\<lambda>clip. if clipId clip = cid
                         then clip\<lparr>startTime :=
                                mathRound (max 0 ((x - rectLeft rect - dragOffset s
                                                   - TRACK_LABEL_WIDTH + scrollLeft rect)
                                                  / (50 * zoom s)) * 10) / 10\<rparr>
                         else clip)
                (timelineClips s)"
    by (simp only: m clipDragStartTime_formula)
  fix i
  assume i: "i < length (timelineClips s)" and c: "clipId (timelineClips s ! i) = cid"
  then have st: "startTime (timelineClips (clipDragMouseMove y (Some rect) s) ! i)
                   = mathRound (clipDragStartTime y rect (dragOffset s) (zoom s) * 10) / 10" for y
    by (simp add: m)
  show "startTime (timelineClips (clipDragMouseMove x (Some rect) s) ! i)
                \<le> startTime (timelineClips (clipDragMouseMove x' (Some rect) s) ! i)"
    using clipDragStartTime_mono [OF assms, of rect "dragOffset s"] by (simp add: st mathRound_mono)
  show "0 \<le> startTime (timelineClips (clipDragMouseMove x (Some rect) s) ! i)"
    using clipDragStartTime_nonneg [of x rect "dragOffset s" "zoom s"]
    by (simp add: st mathRound_nonneg)
next
  assume p: "isDraggingPlayhead s"
  have t: "currentTime (playheadMouseMove y (Some rect) s)
           = min (clickTime y rect (zoom s)) (totalDuration (timelineClips s))" for y
    using p by (rule playheadMouseMove_time)
  show "currentTime (playheadMouseMove x (Some rect) s)
          = min (max 0 ((x - rectLeft rect - TRACK_LABEL_WIDTH + scrollLeft rect) / (50 * zoom s)))
                (totalDuration (timelineClips s))"
    by (simp only: t clickTime_formula)
  show "currentTime (playheadMouseMove x (Some rect) s)
            \<le> currentTime (playheadMouseMove x' (Some rect) s)"
  proof -
    have "min (clickTime x rect (zoom s)) (totalDuration (timelineClips s))
            \<le> min (clickTime x' rect (zoom s)) (totalDuration (timelineClips s))"
      using clickTime_mono [OF assms, of rect] by (intro min.mono) simp_all
    then show ?thesis by (simp only: t)
  qed
  have "0 \<le> totalDuration (timelineClips s)"
    using mathMax_ge_const [of 45 "map clipEnd (timelineClips s)"] by (simp add: totalDuration_def)
  then show "0 \<le> currentTime (playheadMouseMove x (Some rect) s)"
    by (simp add: t clickTime_def)
qed

text \<open>
  C9, witness: zoom 1, no scroll, the timeline at the left edge of the window. A click at
  180 px and at 230 px seeks to 2 s and 3 s, and at 30 px, left of the track area, to 0; a
  drop at the same two positions appends placements at 2 s and 3 s; a drag of a placement
  grabbed 50 px from its left edge moves it to 1 s; the playhead drag gives 2 s.
\<close>

theorem drag_time_monotone_nonneg_witness:
  "0 < zoom initialEditor \<and> (180 :: real) \<le> 230
   \<and> \<not> isDraggingPlayhead initialEditor \<and> \<not> isDraggingTimelineClip initialEditor
   \<and> currentTime (handleTimelineClick 180 (Some \<lparr>rectLeft = 0, scrollLeft = 0\<rparr>) initialEditor) = 2
   \<and> currentTime (handleTimelineClick 230 (Some \<lparr>rectLeft = 0, scrollLeft = 0\<rparr>) initialEditor) = 3
   \<and> currentTime (handleTimelineClick 30 (Some \<lparr>rectLeft = 0, scrollLeft = 0\<rparr>) initialEditor) = 0
   \<and> timelineClips (handleDrop 180 (Some \<lparr>rectLeft = 0, scrollLeft = 0\<rparr>) BRoll ''n''
        (initialEditor\<lparr>draggedClip := Some (mkVideo ''b.mp4'')\<rparr>))
      = [mkClip ''n'' ''b.mp4'' BRoll 2 3]
   \<and> timelineClips (handleDrop 230 (Some \<lparr>rectLeft = 0, scrollLeft = 0\<rparr>) BRoll ''n''
        (initialEditor\<lparr>draggedClip := Some (mkVideo ''b.mp4'')\<rparr>))
      = [mkClip ''n'' ''b.mp4'' BRoll 3 3]
   \<and> timelineClips (clipDragMouseMove 180 (Some \<lparr>rectLeft = 0, scrollLeft = 0\<rparr>)
        (initialEditor\<lparr>timelineClips := [longA, mkClip ''n'' ''b.mp4'' BRoll 3 3],
                        isDraggingTimelineClip := True, draggingClipId := Some ''n'',
                        dragOffset := 50\<rparr>))
      = [longA, mkClip ''n'' ''b.mp4'' BRoll 1 3]
   \<and> currentTime (playheadMouseMove 180 (Some \<lparr>rectLeft = 0, scrollLeft = 0\<rparr>)
        (handlePlayheadMouseDown initialEditor)) = 2"
  using
    drag_time_monotone_nonneg [of initialEditor 180 230 "\<lparr>rectLeft = 0, scrollLeft = 0\<rparr>"]
    drag_time_monotone_nonneg [of initialEditor 30 180 "\<lparr>rectLeft = 0, scrollLeft = 0\<rparr>"]
    drag_time_monotone_nonneg [of "initialEditor\<lparr>draggedClip := Some (mkVideo ''b.mp4'')\<rparr>"
       180 230 "\<lparr>rectLeft = 0, scrollLeft = 0\<rparr>" "mkVideo ''b.mp4''" BRoll "''n''"]
    drag_time_monotone_nonneg
      [of "initialEditor\<lparr>timelineClips := [longA, mkClip ''n'' ''b.mp4'' BRoll 3 3],
                        isDraggingTimelineClip := True, draggingClipId := Some ''n'',
                        dragOffset := 50\<rparr>"
          180 230 "\<lparr>rectLeft = 0, scrollLeft = 0\<rparr>" _ _ _ "''n''"]
    drag_time_monotone_nonneg [of "handlePlayheadMouseDown initialEditor" 180 230
       "\<lparr>rectLeft = 0, scrollLeft = 0\<rparr>"]
  by (simp add: handleTimelineClick_def handleDrop_def clipDragMouseMove_def playheadMouseMove_def
      handlePlayheadMouseDown_def numberOr_def mathRound_def totalDuration_def
      dropStartTime_def clickTime_def clipDragStartTime_def TRACK_LABEL_WIDTH_def
      PIXEL_PER_SECOND_def example_eval)

text \<open>
  C10. The start time stored by a library drop and by a placement drag is
  \<open>round (rawTime * 10) / 10\<close> of the pointer-derived time: a whole number of tenths, at most
  a twentieth of a second from the raw time. A drop appends one placement with that start
  time; a drag move rewrites the start time of the dragged placement only. If every
  placement starts on the tenth-of-a-second grid, so does every placement after a drop or
  a drag move.
\<close>

theorem drop_and_drag_start_times_on_tenth_grid:
  "(draggedClip s = Some v \<longrightarrow>
      (\<exists>c. timelineClips (handleDrop cx (Some rect) tr newId s) = timelineClips s @ [c]
         \<and> startTime c = mathRound (dropStartTime cx rect (zoom s) * 10) / 10
         \<and> (\<exists>n::nat. startTime c = real n / 10)
         \<and> \<bar>startTime c - dropStartTime cx rect (zoom s)\<bar> \<le> 1 / 20))
   \<and> (isDraggingTimelineClip s \<and> draggingClipId s = Some cid \<and> cid \<noteq> [] \<longrightarrow>
        timelineClips (clipDragMouseMove cx (Some rect) s)
          = map (\<lambda>clip. if clipId clip = cid
                         then clip\<lparr>startTime :=
                                mathRound (clipDragStartTime cx rect (dragOffset s) (zoom s) * 10) / 10\<rparr>
                         else clip)
                (timelineClips s)
        \<and> (\<exists>n::nat. mathRound (clipDragStartTime cx rect (dragOffset s) (zoom s) * 10) / 10 = real n / 10)
        \<and> \<bar>mathRound (clipDragStartTime cx rect (dragOffset s) (zoom s) * 10) / 10
             - clipDragStartTime cx rect (dragOffset s) (zoom s)\<bar> \<le> 1 / 20)
   \<and> ((\<forall>c \<in> set (timelineClips s). \<exists>n::nat. startTime c = real n / 10) \<longrightarrow>
        (\<forall>c \<in> set (timelineClips (handleDrop cx ref tr newId s)). \<exists>n::nat. startTime c = real n / 10)
        \<and> (\<forall>c \<in> set (timelineClips (clipDragMouseMove cx ref s)). \<exists>n::nat. startTime c = real n / 10))"
proof (intro conjI impI)
  assume d: "draggedClip s = Some v"
  let ?c = "\<lparr>clipId = newId, videoClip = v,
               startTime = mathRound (dropStartTime cx rect (zoom s) * 10) / 10,
               duration = numberOr (videoDuration v) 3, track = tr\<rparr>"
  have "timelineClips (handleDrop cx (Some rect) tr newId s) = timelineClips s @ [?c]"
    using d by (rule handleDrop_appends)
  moreover have "startTime ?c = mathRound (dropStartTime cx rect (zoom s) * 10) / 10" by simp
  moreover have "\<exists>n::nat. startTime ?c = real n / 10"
    using mathRound_grid [OF dropStartTime_nonneg] by simp
  moreover have "\<bar>startTime ?c - dropStartTime cx rect (zoom s)\<bar> \<le> 1 / 20"
    using mathRound_near by simp
  ultimately show "\<exists>c. timelineClips (handleDrop cx (Some rect) tr newId s) = timelineClips s @ [c]
         \<and> startTime c = mathRound (dropStartTime cx rect (zoom s) * 10) / 10
         \<and> (\<exists>n::nat. startTime c = real n / 10)
         \<and> \<bar>startTime c - dropStartTime cx rect (zoom s)\<bar> \<le> 1 / 20"
    by blast
next
  assume "isDraggingTimelineClip s \<and> draggingClipId s = Some cid \<and> cid \<noteq> []"
  then show "timelineClips (clipDragMouseMove cx (Some rect) s)
          = map (\<lambda>clip. if clipId clip = cid
                         then clip\<lparr>startTime :=
                                mathRound (clipDragStartTime cx rect (dragOffset s) (zoom s) * 10) / 10\<rparr>
                         else clip)
                (timelineClips s)"
    by (simp add: clipDragMouseMove_maps)
next
  show "\<exists>n::nat. mathRound (clipDragStartTime cx rect (dragOffset s) (zoom s) * 10) / 10 = real n / 10"
    by (rule mathRound_grid [OF clipDragStartTime_nonneg])
next
  show "\<bar>mathRound (clipDragStartTime cx rect (dragOffset s) (zoom s) * 10) / 10
             - clipDragStartTime cx rect (dragOffset s) (zoom s)\<bar> \<le> 1 / 20"
    by (rule mathRound_near)
next
  assume g: "\<forall>c \<in> set (timelineClips s). \<exists>n::nat. startTime c = real n / 10"
  show "\<forall>c \<in> set (timelineClips (handleDrop cx ref tr newId s)). \<exists>n::nat. startTime c = real n / 10"
  proof (cases "draggedClip s")
    case None
    with g show ?thesis by (simp add: handleDrop_def)
  next
    case (Some v)
    show ?thesis
    proof (cases ref)
      case None
      with g Some show ?thesis by (simp add: handleDrop_def)
    next
      case (Some rect)
      with g \<open>draggedClip s = Some v\<close> mathRound_grid [OF dropStartTime_nonneg [of cx rect "zoom s"]]
      show ?thesis by (auto simp: handleDrop_appends)
    qed
  qed
next
  assume g: "\<forall>c \<in> set (timelineClips s). \<exists>n::nat. startTime c = real n / 10"
  show "\<forall>c \<in> set (timelineClips (clipDragMouseMove cx ref s)). \<exists>n::nat. startTime c = real n / 10"
  proof (cases ref)
    case None
    with g show ?thesis by (simp add: clipDragMouseMove_def)
  next
    case (Some rect)
    with g mathRound_grid [OF clipDragStartTime_nonneg [of cx rect "dragOffset s" "zoom s"]]
    show ?thesis by (auto simp: clipDragMouseMove_def Let_def)
  qed
qed

text \<open>
  C10, witness: a drop at 237 px (zoom 1) has the raw time 3.14 s and stores 3.1 s; dragging
  that placement to 430 px stores 7 s and leaves the a-roll beside it alone.
\<close>

theorem drop_and_drag_start_times_on_tenth_grid_witness:
  "draggedClip (initialEditor\<lparr>draggedClip := Some (mkVideo ''b.mp4'')\<rparr>) = Some (mkVideo ''b.mp4'')
   \<and> dropStartTime 237 \<lparr>rectLeft = 0, scrollLeft = 0\<rparr> 1 = 157 / 50
   \<and> timelineClips (handleDrop 237 (Some \<lparr>rectLeft = 0, scrollLeft = 0\<rparr>) BRoll ''n''
        (initialEditor\<lparr>draggedClip := Some (mkVideo ''b.mp4'')\<rparr>))
      = [mkClip ''n'' ''b.mp4'' BRoll (31 / 10) 3]
   \<and> timelineClips (clipDragMouseMove 430 (Some \<lparr>rectLeft = 0, scrollLeft = 0\<rparr>)
        (initialEditor\<lparr>timelineClips := [longA, mkClip ''n'' ''b.mp4'' BRoll (31 / 10) 3],
                        isDraggingTimelineClip := True, draggingClipId := Some ''n''\<rparr>))
      = [longA, mkClip ''n'' ''b.mp4'' BRoll 7 3]"
  using
    drop_and_drag_start_times_on_tenth_grid
      [of "initialEditor\<lparr>draggedClip := Some (mkVideo ''b.mp4'')\<rparr>" "mkVideo ''b.mp4''"
          237 "\<lparr>rectLeft = 0, scrollLeft = 0\<rparr>" BRoll "''n''" "''n''" "Some \<lparr>rectLeft = 0, scrollLeft = 0\<rparr>"]
    drop_and_drag_start_times_on_tenth_grid
      [of "initialEditor\<lparr>timelineClips := [longA, mkClip ''n'' ''b.mp4'' BRoll (31 / 10) 3],
                        isDraggingTimelineClip := True, draggingClipId := Some ''n''\<rparr>"
          "mkVideo ''b.mp4''" 430 "\<lparr>rectLeft = 0, scrollLeft = 0\<rparr>" BRoll "''n''" "''n''"
          "Some \<lparr>rectLeft = 0, scrollLeft = 0\<rparr>"]
  by (simp add: handleDrop_def clipDragMouseMove_def numberOr_def mathRound_def
      dropStartTime_def clipDragStartTime_def TRACK_LABEL_WIDTH_def PIXEL_PER_SECOND_def
      example_eval)

section \<open>Strategy B and the two strategies compared\<close>

lemma writeFiles_keeps: "m u \<noteq> None \<Longrightarrow> fst (writeFiles cs m i w) u = m u"
proof (induction cs arbitrary: m i w)
  case Nil
  show ?case by simp
next
  case (Cons clip rest)
  show ?case
  proof (cases "m (url (videoClip clip)) = None")
    case True
    with Cons.prems have ne: "u \<noteq> url (videoClip clip)" by auto
    then have "(m(url (videoClip clip) \<mapsto> i)) u \<noteq> None" using Cons.prems by simp
    then have "fst (writeFiles rest (m(url (videoClip clip) \<mapsto> i)) (Suc i)
                      (w @ [(i, url (videoClip clip))])) u
                 = (m(url (videoClip clip) \<mapsto> i)) u"
      by (rule Cons.IH)
    with True ne show ?thesis by simp
  next
    case False
    with Cons show ?thesis by simp
  qed
qed

lemma writeFiles_written_keeps: "p \<in> set w \<Longrightarrow> p \<in> set (snd (writeFiles cs m i w))"
  by (induction cs arbitrary: m i w) auto

text \<open>
  Every url of the list gets a file, and that file was written from that url, provided the
  same holds of the files known before the loop.
\<close>

lemma writeFiles_holds:
  assumes "\<forall>u n. m u = Some n \<longrightarrow> (n, u) \<in> set w"
    and "c \<in> set cs"
  shows "\<exists>n. fst (writeFiles cs m i w) (url (videoClip c)) = Some n
             \<and> (n, url (videoClip c)) \<in> set (snd (writeFiles cs m i w))"
  using assms
proof (induction cs arbitrary: m i w)
  case Nil
  then show ?case by simp
next
  case (Cons clip rest)
  let ?u = "url (videoClip clip)"
  show ?case
  proof (cases "m (url (videoClip c))")
    case (Some n)
    then have "fst (writeFiles (clip # rest) m i w) (url (videoClip c)) = Some n"
      using writeFiles_keeps [of m "url (videoClip c)" "clip # rest" i w] by simp
    moreover from Some Cons.prems(1) have "(n, url (videoClip c)) \<in> set w" by blast
    then have "(n, url (videoClip c)) \<in> set (snd (writeFiles (clip # rest) m i w))"
      by (rule writeFiles_written_keeps)
    ultimately show ?thesis by blast
  next
    case None
    show ?thesis
    proof (cases "url (videoClip c) = ?u")
      case True
      let ?m = "m(?u \<mapsto> i)" and ?w = "w @ [(i, ?u)]"
      have "?m (url (videoClip c)) \<noteq> None" using True by simp
      then have "fst (writeFiles rest ?m (Suc i) ?w) (url (videoClip c)) = ?m (url (videoClip c))"
        by (rule writeFiles_keeps)
      then have "fst (writeFiles rest ?m (Suc i) ?w) (url (videoClip c)) = Some i"
        using True by simp
      moreover have "(i, url (videoClip c)) \<in> set ?w" using True by simp
      then have "(i, url (videoClip c)) \<in> set (snd (writeFiles rest ?m (Suc i) ?w))"
        by (rule writeFiles_written_keeps)
      ultimately show ?thesis using None True by simp
    next
      case False
      with Cons.prems(2) have cr: "c \<in> set rest" by auto
      show ?thesis
      proof (cases "m ?u = None")
        case mNone: True
        have inv: "\<forall>u n. (m(?u \<mapsto> i)) u = Some n \<longrightarrow> (n, u) \<in> set (w @ [(i, ?u)])"
          using Cons.prems(1) by auto
        have step: "writeFiles (clip # rest) m i w
                      = writeFiles rest (m(?u \<mapsto> i)) (Suc i) (w @ [(i, ?u)])"
          using mNone by simp
        show ?thesis
          unfolding step using inv cr by (rule Cons.IH)
      next
        case mSome: False
        have step: "writeFiles (clip # rest) m i w = writeFiles rest m i w"
          using mSome by auto
        show ?thesis
          unfolding step using Cons.prems(1) cr by (rule Cons.IH)
      qed
    qed
  qed
qed

lemma concatLoop_maps:
  "concatLoop fm ixs (ins, fc)
     = (ins @ map (\<lambda>p. fm (url (videoClip (snd p)))) ixs,
        fc @ map (\<lambda>p. ScalePad (fst p) (PadV (fst p))) ixs)"
  by (induction ixs arbitrary: ins fc) auto

lemma map_snd_indexed: "map (\<lambda>p. f (snd p)) (zip [0..<length bs] bs) = map f bs"
  by (rule nth_equalityI) simp_all

lemma map_fst_indexed: "map (\<lambda>p. f (fst p)) (zip [0..<length bs] bs) = map f [0..<length bs]"
  by (rule nth_equalityI) simp_all

lemma arraySort_no_aRoll:
  assumes "\<not> (\<exists>c \<in> set cs. track c = ARoll)"
  shows "arraySort cmpTrackStart cs = sort_key startTime cs"
proof -
  have allB: "filter (\<lambda>c. track c = BRoll) cs = cs"
    using assms by (auto simp: filter_id_conv intro: track.exhaust)
  have "filter (\<lambda>c. track c = BRoll) (arraySort cmpTrackStart cs) = arraySort cmpTrackStart cs"
    using assms by (auto simp: filter_id_conv set_arraySort_cmpTrackStart intro: track.exhaust)
  then show ?thesis
    using bRolls_of_sorted [of cs] by (simp only: allB)
qed

text \<open>
  The job for a timeline without a-roll: one scale-and-pad per b-roll placement in
  start-time order, one concat of them all into \<^verbatim>\<open>[out]\<close>, and every input a file that was
  written from the url of its placement.
\<close>

lemma handleExport_no_aRoll:
  assumes "cs \<noteq> []" "\<not> (\<exists>c \<in> set cs. track c = ARoll)"
  shows "\<exists>fileMap written.
     writeFiles (sort_key startTime cs) Map.empty 0 [] = (fileMap, written)
     \<and> handleExport True cs =
        Inr \<lparr>virtualFiles = written,
             inputs = map (\<lambda>c. fileMap (url (videoClip c))) (sort_key startTime cs),
             filterComplex = map (\<lambda>i. ScalePad i (PadV i)) [0..<length cs]
                             @ [Concat (map PadV [0..<length cs]) (length cs) PadOut],
             mapLabel = PadOut, outputRate = 30,
             outputLimit = mathMax (map clipEnd (sort_key startTime cs)) 0\<rparr>
     \<and> (\<forall>c \<in> set cs. \<exists>n. fileMap (url (videoClip c)) = Some n
                              \<and> (n, url (videoClip c)) \<in> set written)"
proof -
  obtain fileMap written where w: "writeFiles (sort_key startTime cs) Map.empty 0 [] = (fileMap, written)"
    by (cases "writeFiles (sort_key startTime cs) Map.empty 0 []") blast
  have s: "arraySort cmpTrackStart cs = sort_key startTime cs"
    using assms(2) by (rule arraySort_no_aRoll)
  have noA: "filter (\<lambda>c. track c = ARoll) (sort_key startTime cs) = []"
    using assms(2) by (simp add: filter_empty_conv)
  have allB: "filter (\<lambda>c. track c = BRoll) (sort_key startTime cs) = sort_key startTime cs"
    using assms(2) by (auto simp: filter_id_conv intro: track.exhaust)
  have job: "handleExport True cs =
        Inr \<lparr>virtualFiles = written,
             inputs = map (\<lambda>c. fileMap (url (videoClip c))) (sort_key startTime cs),
             filterComplex = map (\<lambda>i. ScalePad i (PadV i)) [0..<length cs]
                             @ [Concat (map PadV [0..<length cs]) (length cs) PadOut],
             mapLabel = PadOut, outputRate = 30,
             outputLimit = mathMax (map clipEnd (sort_key startTime cs)) 0\<rparr>"
    using assms(1)
      map_snd_indexed [of "\<lambda>c. fileMap (url (videoClip c))" "sort_key startTime cs"]
      map_fst_indexed [of "\<lambda>i. ScalePad i (PadV i)" "sort_key startTime cs"]
    by (simp add: handleExport_def Let_def s w noA allB concatLoop_maps)
  have "\<exists>n. fileMap (url (videoClip c)) = Some n \<and> (n, url (videoClip c)) \<in> set written"
    if "c \<in> set cs" for c
  proof -
    from that have "c \<in> set (sort_key startTime cs)" by simp
    from writeFiles_holds [of Map.empty "[]" c "sort_key startTime cs" 0, OF _ this] w
    show ?thesis by simp
  qed
  with w job show ?thesis by blast
qed

lemma handleExport_builds:
  assumes "cs \<noteq> []"
  shows "\<exists>j. handleExport True cs = Inr j \<and> outputRate j = 30 \<and> mapLabel j = PadOut
           \<and> outputLimit j = Max (insert 0 (set (map clipEnd cs)))"
proof -
  have "mathMax (map clipEnd (arraySort cmpTrackStart cs)) 0 = Max (insert 0 (set (map clipEnd cs)))"
    by (simp add: mathMax_Max set_arraySort_cmpTrackStart)
  then show ?thesis
    using assms
    by (auto simp: handleExport_def Let_def split: list.split prod.split)
qed

text \<open>
  C4 (the code misses two cases). The claim says that the two strategies give equivalent
  composites and succeed or fail on the same timelines. On the timeline that holds one
  a-roll placement and no b-roll, Strategy A enters its loop and draws the a-roll, while
  the graph of Strategy B ends at \<^verbatim>\<open>[base]\<close>: no segment writes the \<^verbatim>\<open>[out]\<close> that \<^verbatim>\<open>-map\<close>
  asks for. On the timeline that holds one b-roll placement and no a-roll, Strategy A
  throws \<^verbatim>\<open>No A-roll found\<close>, while Strategy B builds a concatenation that writes
  \<^verbatim>\<open>[out]\<close>.
\<close>

theorem export_strategies_diverge_on_single_track_timelines:
  "exportTimeline True [longA]
     = Inr \<lparr>aRollVideo = ''a.mp4'', bRollClips = [], bRollVideos = Map.empty,
            jobTotalDuration = Some 10\<rparr>
   \<and> handleExport True [longA]
       = Inr \<lparr>virtualFiles = [(0, ''a.mp4'')], inputs = [Some 0],
              filterComplex = [ScalePadBase],
              mapLabel = PadOut, outputRate = 30, outputLimit = 10\<rparr>
   \<and> PadOut \<notin> set (map stageOutput [ScalePadBase])
   \<and> exportTimeline True [overB] = Inl NoARollFound
   \<and> handleExport True [overB]
       = Inr \<lparr>virtualFiles = [(0, ''b.mp4'')], inputs = [Some 0],
              filterComplex = [ScalePad 0 (PadV 0), Concat [PadV 0] 1 PadOut],
              mapLabel = PadOut, outputRate = 30, outputLimit = 1 / 2\<rparr>
   \<and> PadOut \<in> set (map stageOutput [ScalePad 0 (PadV 0), Concat [PadV 0] 1 PadOut])"
  by (simp add: example_eval upt_rec)

end
